theory Spec2Isabelle
  imports Complex_Main "HOL-Library.Sublist"
begin

section \<open>Values, strings and errors\<close>

text \<open>
  The dashboard (\<^verbatim>\<open>map_data_presentaiton.py\<close>) computes with the numbers pandas
  returns. A cell of a measure column is modelled as a real number; the result of a
  column reduction is a \<open>pyfloat\<close>, because \<^verbatim>\<open>Series.max()\<close> of a column without rows
  is \<^verbatim>\<open>nan\<close>, and \<^verbatim>\<open>nan\<close> propagates through the arithmetic that follows.
  Arithmetic on finite values is exact here: the rounding of IEEE doubles is not modelled.
\<close>

datatype pyfloat = NaN | Fin real

datatype py_error = KeyError | ValueError | AttributeError | IndexError

type_synonym range = "pyfloat \<times> pyfloat"

fun fneg :: "pyfloat \<Rightarrow> pyfloat" where
  "fneg NaN = NaN"
| "fneg (Fin a) = Fin (- a)"

fun fmul :: "pyfloat \<Rightarrow> real \<Rightarrow> pyfloat" where
  "fmul NaN c = NaN"
| "fmul (Fin a) c = Fin (a * c)"

text \<open>Python's \<^verbatim>\<open>b > a\<close> on floats: every comparison with \<^verbatim>\<open>nan\<close> is false.\<close>

fun fgt :: "pyfloat \<Rightarrow> pyfloat \<Rightarrow> bool" where
  "fgt (Fin b) (Fin a) = (b > a)"
| "fgt b a = False"

text \<open>The builtin \<^verbatim>\<open>max(a, b)\<close>: the first argument stays unless the second is greater.\<close>

definition py_max :: "pyfloat \<Rightarrow> pyfloat \<Rightarrow> pyfloat" where
  "py_max a b = (if fgt b a then b else a)"

text \<open>\<^verbatim>\<open>Series.max()\<close> and \<^verbatim>\<open>Series.min()\<close>: a reduction over the cells, \<^verbatim>\<open>nan\<close> on no cells.\<close>

fun series_max :: "real list \<Rightarrow> pyfloat" where
  "series_max [] = NaN"
| "series_max (v # vs) = Fin (fold max vs v)"

fun series_min :: "real list \<Rightarrow> pyfloat" where
  "series_min [] = NaN"
| "series_min (v # vs) = Fin (fold min vs v)"

text \<open>
  \<^verbatim>\<open>str.lower()\<close> on the ASCII letters (column names are ASCII identifiers), and the
  substring test \<^verbatim>\<open>sub in s\<close>.
\<close>

definition lower_char :: "char \<Rightarrow> char" where
  "lower_char c =
     (if (65::nat) \<le> of_char c \<and> of_char c \<le> (90::nat) then char_of (of_char c + (32::nat)) else c)"

definition upper_char :: "char \<Rightarrow> char" where
  "upper_char c =
     (if (97::nat) \<le> of_char c \<and> of_char c \<le> (122::nat) then char_of (of_char c - (32::nat)) else c)"

definition is_letter :: "char \<Rightarrow> bool" where
  "is_letter c = (((65::nat) \<le> of_char c \<and> of_char c \<le> (90::nat))
                  \<or> ((97::nat) \<le> of_char c \<and> of_char c \<le> (122::nat)))"

definition str_lower :: "string \<Rightarrow> string" where
  "str_lower s = map lower_char s"

fun str_contains :: "string \<Rightarrow> string \<Rightarrow> bool" where
  "str_contains sub [] = (sub = [])"
| "str_contains sub (c # cs) = (prefix sub (c # cs) \<or> str_contains sub cs)"

definition startswith :: "string \<Rightarrow> string \<Rightarrow> bool" where
  "startswith s p = prefix p s"

text \<open>The test \<^verbatim>\<open>"rate" in col.lower()\<close> that every render operation uses.\<close>

definition rate_in_lower :: "string \<Rightarrow> bool" where
  "rate_in_lower col = str_contains ''rate'' (str_lower col)"

text \<open>\<^verbatim>\<open>s.replace('_', ' ')\<close> and \<^verbatim>\<open>str.title()\<close> on ASCII text.\<close>

definition replace_underscore :: "string \<Rightarrow> string" where
  "replace_underscore s = map (\<lambda>c. if c = CHR ''_'' then CHR '' '' else c) s"

fun title_from :: "bool \<Rightarrow> string \<Rightarrow> string" where
  "title_from prev_cased [] = []"
| "title_from prev_cased (c # cs) =
     (if prev_cased then lower_char c else upper_char c) # title_from (is_letter c) cs"

definition str_title :: "string \<Rightarrow> string" where
  "str_title s = title_from False s"

section \<open>The dataset\<close>

text \<open>
  The GeoDataFrame \<^verbatim>\<open>df\<close>: rows keyed by position, each with its labels, its numeric
  measures and its geometry. \<open>columns\<close> lists the measure columns the frame has; reading
  any other column raises \<^verbatim>\<open>KeyError\<close>. Of a polygon only the exterior ring is read.
\<close>

type_synonym coord = "real \<times> real"

datatype geometry =
    Polygon "coord list"
  | MultiPolygon "coord list list"
  | OtherGeometry string

record row =
  area_name :: string
  region :: string
  measures :: "string \<Rightarrow> real"
  geometry :: geometry

record dataframe =
  columns :: "string list"
  rows :: "row list"

definition df_len :: "dataframe \<Rightarrow> int" where
  "df_len df = int (length (rows df))"

definition column_values :: "dataframe \<Rightarrow> string \<Rightarrow> real list" where
  "column_values df col = map (\<lambda>r. measures r col) (rows df)"

definition df_col :: "dataframe \<Rightarrow> string \<Rightarrow> py_error + real list" where
  "df_col df col = (if col \<in> set (columns df) then Inr (column_values df col) else Inl KeyError)"

definition col_max :: "dataframe \<Rightarrow> string \<Rightarrow> py_error + pyfloat" where
  "col_max df col = (case df_col df col of Inl e \<Rightarrow> Inl e | Inr vs \<Rightarrow> Inr (series_max vs))"

definition col_min :: "dataframe \<Rightarrow> string \<Rightarrow> py_error + pyfloat" where
  "col_min df col = (case df_col df col of Inl e \<Rightarrow> Inl e | Inr vs \<Rightarrow> Inr (series_min vs))"

text \<open>
  \<^verbatim>\<open>df.iloc[i]\<close> fetches the row at position \<open>i\<close>; positions \<open>-n .. -1\<close> address the rows
  from the last one backwards, and any other position raises \<^verbatim>\<open>IndexError\<close>.
\<close>

definition iloc :: "dataframe \<Rightarrow> int \<Rightarrow> py_error + row" where
  "iloc df i =
     (if 0 \<le> i \<and> i < df_len df then Inr (rows df ! nat i)
      else if - df_len df \<le> i \<and> i < 0 then Inr (rows df ! nat (df_len df + i))
      else Inl IndexError)"

section \<open>Shared ranges\<close>

definition calculate_consistent_ranges ::
  "dataframe \<Rightarrow> string \<Rightarrow> string \<Rightarrow> string \<Rightarrow> py_error + (range \<times> range \<times> range)" where
  "calculate_consistent_ranges df upper_col lower_col x_axis_column =
     (case col_max df x_axis_column of
        Inl e \<Rightarrow> Inl e
      | Inr x_max \<Rightarrow>
          (let x_range = (fmul (fneg x_max) 0.02, fmul x_max 1.02)
           in if rate_in_lower upper_col \<and> rate_in_lower lower_col
              then Inr (x_range, (Fin 0, Fin 1.05), (Fin 0, Fin 1.05))
              else (case col_max df upper_col of
                      Inl e \<Rightarrow> Inl e
                    | Inr upper_max \<Rightarrow>
                        (case col_max df lower_col of
                           Inl e \<Rightarrow> Inl e
                         | Inr lower_max \<Rightarrow>
                             (let max_val = py_max upper_max lower_max
                              in Inr (x_range, (Fin 0, fmul max_val 1.05),
                                      (Fin 0, fmul max_val 1.05)))))))"

section \<open>Errors in sequence\<close>

fun err_bind :: "py_error + 'a \<Rightarrow> ('a \<Rightarrow> py_error + 'b) \<Rightarrow> py_error + 'b" where
  "err_bind (Inl e) f = Inl e"
| "err_bind (Inr v) f = f v"

section \<open>Axis titles and scatter configurations (utils.py)\<close>

text \<open>
  \<^verbatim>\<open>title_mapping\<close> maps a column name to a display text. The texts are not ASCII and
  nothing below reads them, so an entry of the table is represented by its key
  (\<open>Mapped\<close>); \<open>Text\<close> is a literal or computed string.
\<close>

datatype title = Mapped string | Text string

definition title_mapping_keys :: "string list" where
  "title_mapping_keys =
     [''legislator_rate'', ''against_recall_rate'', ''legislator_vote'', ''against_recall_vote'',
      ''legislator_voting_rate'', ''recall_voting_rate'', ''legislator_total_voter_count'',
      ''recall_vote_total_voter_count'', ''legislator_total_voter_density'',
      ''recall_vote_total_voter_density'', ''region'', ''area_name'', ''legislator_total_vote'',
      ''legislator_invalid_vote'', ''recall_vote_total_vote'', ''recall_vote_invalid_vote'',
      ''recall_invalid_rate'', ''recall_rate'', ''recall_vote'', ''recall_vote_count'',
      ''legislator_invalid_rate'', ''area_sq_km'', ''village_neighborhood'', ''Support vote rate'',
      ''Support vote'', ''Voting Rate'', ''Total Voter'']"

definition get_axis_title :: "string \<Rightarrow> title" where
  "get_axis_title column_name =
     (if column_name \<in> set title_mapping_keys then Mapped column_name
      else Text (str_title (replace_underscore column_name)))"

text \<open>
  Called with \<^verbatim>\<open>None\<close>, \<^verbatim>\<open>get_axis_title\<close> raises: the default argument
  \<^verbatim>\<open>column_name.replace(...)\<close> of \<^verbatim>\<open>dict.get\<close> is evaluated before the lookup.
\<close>

definition get_axis_title_opt :: "string option \<Rightarrow> py_error + title" where
  "get_axis_title_opt column_name =
     (case column_name of None \<Rightarrow> Inl AttributeError | Some c \<Rightarrow> Inr (get_axis_title c))"

definition title_truthy :: "title option \<Rightarrow> bool" where
  "title_truthy t = (case t of None \<Rightarrow> False | Some (Mapped k) \<Rightarrow> True | Some (Text s) \<Rightarrow> s \<noteq> [])"

definition scatter_configs :: "string \<Rightarrow> (string \<times> string) option" where
  "scatter_configs =
     map_of [(''Support vote rate'', (''legislator_rate'', ''against_recall_rate'')),
             (''Support vote'', (''legislator_vote'', ''against_recall_vote'')),
             (''Voting Rate'', (''legislator_voting_rate'', ''recall_voting_rate'')),
             (''Total Voter'', (''legislator_total_voter_count'', ''recall_vote_total_voter_count''))]"

section \<open>Figures\<close>

text \<open>
  A Plotly figure is its list of traces and its layout. Of a trace the model keeps the
  type, the name, the coordinates (\<open>x\<close>/\<open>y\<close>, or \<open>lon\<close>/\<open>lat\<close> on a map), the values that
  colour it and the mode; of the layout the entries the dashboard sets. Marker and line
  styling, hover templates and the map centre are constants of the source that no
  operation reads back, and are left out.
\<close>

datatype color_scale = RdYlGn | Viridis

record trace =
  trace_type :: string
  trace_name :: "string option"
  trace_x :: "pyfloat list"
  trace_y :: "pyfloat list"
  trace_color :: "pyfloat list"
  trace_mode :: "string option"

record layout =
  layout_height :: "int option"
  layout_margin :: "(int \<times> int \<times> int \<times> int) option"
  layout_title :: "string option"
  xaxis_range :: "range option"
  xaxis_title :: "title option"
  yaxis_range :: "range option"
  yaxis_title :: "title option"
  coloraxis_colorscale :: "color_scale option"
  coloraxis_range :: "range option"
  colorbar_title :: "title option"
  mapbox_style :: "string option"
  mapbox_zoom :: "int option"

record figure =
  fig_data :: "trace list"
  fig_layout :: layout

definition empty_layout :: layout where
  "empty_layout =
     \<lparr>layout_height = None, layout_margin = None, layout_title = None,
      xaxis_range = None, xaxis_title = None, yaxis_range = None, yaxis_title = None,
      coloraxis_colorscale = None, coloraxis_range = None, colorbar_title = None,
      mapbox_style = None, mapbox_zoom = None\<rparr>"

text \<open>\<^verbatim>\<open>go.Figure()\<close>: no trace, nothing set.\<close>

definition Figure :: figure where
  "Figure = \<lparr>fig_data = [], fig_layout = empty_layout\<rparr>"

definition add_trace :: "figure \<Rightarrow> trace \<Rightarrow> figure" where
  "add_trace fig t = fig\<lparr>fig_data := fig_data fig @ [t]\<rparr>"

text \<open>
  \<^verbatim>\<open>px.scatter\<close> with a numeric colour column: one marker trace named \<^verbatim>\<open>''\<close> over all
  rows in row order, and a colour axis. A column the frame lacks raises \<^verbatim>\<open>ValueError\<close>.
\<close>

definition px_scatter ::
  "dataframe \<Rightarrow> string \<Rightarrow> string \<Rightarrow> color_scale \<Rightarrow> range option \<Rightarrow> py_error + figure" where
  "px_scatter df x_column y_column scale range_color =
     (if x_column \<in> set (columns df) \<and> y_column \<in> set (columns df)
      then Inr \<lparr>fig_data =
                  [\<lparr>trace_type = ''scatter'', trace_name = Some [],
                    trace_x = map Fin (column_values df x_column),
                    trace_y = map Fin (column_values df y_column),
                    trace_color = map Fin (column_values df y_column), trace_mode = Some ''markers''\<rparr>],
                fig_layout =
                  empty_layout\<lparr>xaxis_title := Some (Text x_column),
                               yaxis_title := Some (Text y_column),
                               coloraxis_colorscale := Some scale,
                               coloraxis_range := range_color,
                               colorbar_title := Some (Text y_column)\<rparr>\<rparr>
      else Inl ValueError)"

text \<open>\<^verbatim>\<open>px.choropleth_mapbox\<close>: one choropleth trace over all rows, coloured by the column.\<close>

definition px_choropleth_mapbox ::
  "dataframe \<Rightarrow> string \<Rightarrow> color_scale \<Rightarrow> range \<Rightarrow> py_error + figure" where
  "px_choropleth_mapbox df color scale range_color =
     (if color \<in> set (columns df)
      then Inr \<lparr>fig_data =
                  [\<lparr>trace_type = ''choroplethmapbox'', trace_name = Some [],
                    trace_x = [], trace_y = [],
                    trace_color = map Fin (column_values df color), trace_mode = None\<rparr>],
                fig_layout =
                  empty_layout\<lparr>coloraxis_colorscale := Some scale,
                               coloraxis_range := Some range_color,
                               colorbar_title := Some (Text color),
                               mapbox_style := Some ''carto-positron'',
                               mapbox_zoom := Some 8\<rparr>\<rparr>
      else Inl ValueError)"

text \<open>A highlight index is used when it is set and \<^verbatim>\<open>0 <= highlight_index < len(df)\<close>.\<close>

definition in_bounds :: "dataframe \<Rightarrow> int \<Rightarrow> bool" where
  "in_bounds df i = (0 \<le> i \<and> i < df_len df)"

text \<open>The red diamond \<^verbatim>\<open>go.Scatter\<close> marker of the scatter plots.\<close>

definition highlight_marker :: "pyfloat \<Rightarrow> pyfloat \<Rightarrow> trace" where
  "highlight_marker x y =
     \<lparr>trace_type = ''scatter'', trace_name = Some ''Highlighted'',
      trace_x = [x], trace_y = [y], trace_color = [], trace_mode = Some ''markers''\<rparr>"

text \<open>\<^verbatim>\<open>df.iloc[i][col]\<close> for a row already fetched.\<close>

definition row_value :: "dataframe \<Rightarrow> row \<Rightarrow> string \<Rightarrow> py_error + pyfloat" where
  "row_value df r col = (if col \<in> set (columns df) then Inr (Fin (measures r col)) else Inl KeyError)"

definition or_default :: "'a option \<Rightarrow> (py_error + 'a) \<Rightarrow> py_error + 'a" where
  "or_default given computed = (case given of None \<Rightarrow> computed | Some v \<Rightarrow> Inr v)"

section \<open>Scatter plot\<close>

text \<open>
  The block \<^verbatim>\<open>if highlight_index is not None and 0 <= highlight_index < len(df)\<close> that
  \<^verbatim>\<open>create_scatter_plot\<close> and \<^verbatim>\<open>create_cross_scatter_plot\<close> share word for word.
\<close>

definition add_scatter_highlight ::
  "dataframe \<Rightarrow> string \<Rightarrow> string \<Rightarrow> int option \<Rightarrow> figure \<Rightarrow> py_error + figure" where
  "add_scatter_highlight df x_column y_column highlight_index fig =
     (case highlight_index of
        None \<Rightarrow> Inr fig
      | Some i \<Rightarrow>
          if in_bounds df i
          then err_bind (iloc df i) (\<lambda>r.
               err_bind (row_value df r x_column) (\<lambda>x.
               err_bind (row_value df r y_column) (\<lambda>y.
                 Inr (add_trace fig (highlight_marker x y)))))
          else Inr fig)"

definition create_scatter_plot ::
  "dataframe \<Rightarrow> string \<Rightarrow> string \<Rightarrow> int option \<Rightarrow> range option \<Rightarrow> range option \<Rightarrow> range option
     \<Rightarrow> title option \<Rightarrow> title option \<Rightarrow> py_error + figure" where
  "create_scatter_plot df y_column x_column highlight_index x_range y_range color_range x_title y_title =
     err_bind
       (if rate_in_lower y_column
        then Inr (case color_range of None \<Rightarrow> (Fin 0, Fin 1) | Some r \<Rightarrow> r,
                  case y_range of None \<Rightarrow> (Fin 0, Fin 1) | Some r \<Rightarrow> r,
                  RdYlGn)
        else err_bind (or_default color_range
                         (err_bind (col_max df y_column) (\<lambda>m. Inr (Fin 0, m)))) (\<lambda>cr.
             err_bind (or_default y_range
                         (err_bind (col_max df y_column) (\<lambda>m. Inr (Fin 0, m)))) (\<lambda>yr.
               Inr (cr, yr, Viridis))))
       (\<lambda>(color_range', y_range', color_scale).
     err_bind
       (or_default x_range
          (err_bind (col_min df x_column) (\<lambda>lo.
           err_bind (col_max df x_column) (\<lambda>hi. Inr (lo, hi))))) (\<lambda>x_range'.
     err_bind (px_scatter df x_column y_column color_scale (Some color_range')) (\<lambda>fig.
     err_bind (add_scatter_highlight df x_column y_column highlight_index fig) (\<lambda>fig.
       Inr (fig\<lparr>fig_layout :=
                  (fig_layout fig)
                    \<lparr>layout_height := Some 280,
                     layout_margin := Some (10, 40, 10, 10),
                     xaxis_range := Some x_range',
                     xaxis_title := (if title_truthy x_title then x_title
                                     else xaxis_title (fig_layout fig)),
                     yaxis_range := Some y_range',
                     yaxis_title := (if title_truthy y_title then y_title
                                     else yaxis_title (fig_layout fig)),
                     colorbar_title := Some (Text [])\<rparr>\<rparr>)))))"

section \<open>Choropleth map\<close>

fun str_nat :: "nat \<Rightarrow> string" where
  "str_nat n =
     (if n < 10 then [char_of (48 + n)]
      else str_nat (n div 10) @ [char_of (48 + n mod 10)])"

declare str_nat.simps [simp del]

text \<open>
  The red outline \<^verbatim>\<open>go.Scattermapbox\<close> of one exterior ring, and the outline of a
  geometry: one trace named \<^verbatim>\<open>Highlighted\<close> for a polygon, one trace
  \<^verbatim>\<open>Highlighted_<i>\<close> for part \<open>i\<close> of a multi-polygon, nothing for another geometry
  type. The source has this block twice, in \<^verbatim>\<open>create_map_plot\<close> and in the hover
  callback, with the same text.
\<close>

definition outline_trace :: "string \<Rightarrow> coord list \<Rightarrow> trace" where
  "outline_trace nm coords =
     \<lparr>trace_type = ''scattermapbox'', trace_name = Some nm,
      trace_x = map (\<lambda>coord. Fin (fst coord)) coords,
      trace_y = map (\<lambda>coord. Fin (snd coord)) coords,
      trace_color = [], trace_mode = Some ''lines''\<rparr>"

fun multi_outline :: "nat \<Rightarrow> coord list list \<Rightarrow> trace list" where
  "multi_outline i [] = []"
| "multi_outline i (polygon # geoms) =
     outline_trace (''Highlighted_'' @ str_nat i) polygon # multi_outline (Suc i) geoms"

fun highlight_outline :: "geometry \<Rightarrow> trace list" where
  "highlight_outline (Polygon exterior) = [outline_trace ''Highlighted'' exterior]"
| "highlight_outline (MultiPolygon geoms) = multi_outline 0 geoms"
| "highlight_outline (OtherGeometry t) = []"

definition add_traces :: "figure \<Rightarrow> trace list \<Rightarrow> figure" where
  "add_traces fig ts = foldl add_trace fig ts"

definition str_truthy :: "string option \<Rightarrow> bool" where
  "str_truthy s = (case s of None \<Rightarrow> False | Some v \<Rightarrow> v \<noteq> [])"

definition create_map_plot ::
  "dataframe \<Rightarrow> string option \<Rightarrow> int option \<Rightarrow> title option \<Rightarrow> py_error + figure" where
  "create_map_plot df selected_column highlight_index colorbar_title' =
     (case selected_column of
        None \<Rightarrow> Inr Figure
      | Some col \<Rightarrow>
          if col = [] then Inr Figure
          else
            err_bind
              (if rate_in_lower col then Inr ((Fin 0, Fin 1), RdYlGn)
               else err_bind (col_max df col) (\<lambda>max_val. Inr ((Fin 0, max_val), Viridis)))
              (\<lambda>(color_range, color_scale).
            err_bind (px_choropleth_mapbox df col color_scale color_range) (\<lambda>fig.
            err_bind
              (case highlight_index of
                 None \<Rightarrow> Inr fig
               | Some i \<Rightarrow>
                   if in_bounds df i
                   then err_bind (iloc df i) (\<lambda>r.
                          Inr (add_traces fig (highlight_outline (geometry r))))
                   else Inr fig) (\<lambda>fig.
              Inr (fig\<lparr>fig_layout :=
                         (fig_layout fig)
                           \<lparr>layout_margin := Some (0, 0, 0, 0),
                            layout_height := Some 600,
                            layout_title := Some (''Choropleth Map: '' @ col),
                            colorbar_title := (if title_truthy colorbar_title' then colorbar_title'
                                               else colorbar_title (fig_layout fig))\<rparr>\<rparr>)))))"

section \<open>Cross scatter plot\<close>

definition diagonal_trace :: "range \<Rightarrow> trace" where
  "diagonal_trace axis_range =
     \<lparr>trace_type = ''scatter'', trace_name = Some ''Diagonal (y=x)'',
      trace_x = [fst axis_range, snd axis_range],
      trace_y = [fst axis_range, snd axis_range],
      trace_color = [], trace_mode = Some ''lines''\<rparr>"

definition create_cross_scatter_plot ::
  "dataframe \<Rightarrow> string \<Rightarrow> string \<Rightarrow> int option \<Rightarrow> py_error + figure" where
  "create_cross_scatter_plot df x_column y_column highlight_index =
     err_bind (col_max df x_column) (\<lambda>x_max.
     err_bind (col_max df y_column) (\<lambda>y_max.
       (let axis_max = py_max x_max y_max;
            axis_range = (Fin 0, fmul axis_max 1.05)
        in err_bind (px_scatter df x_column y_column Viridis None) (\<lambda>fig.
           err_bind (add_scatter_highlight df x_column y_column highlight_index
                       (add_trace fig (diagonal_trace axis_range))) (\<lambda>fig.
             Inr (fig\<lparr>fig_layout :=
                        (fig_layout fig)
                          \<lparr>layout_height := Some 280,
                           layout_margin := Some (10, 40, 10, 10),
                           xaxis_title := Some (get_axis_title x_column),
                           xaxis_range := Some axis_range,
                           yaxis_title := Some (get_axis_title y_column),
                           yaxis_range := Some axis_range,
                           colorbar_title := Some (Text [])\<rparr>\<rparr>))))))"

section \<open>Callbacks\<close>

text \<open>
  A \<^verbatim>\<open>hoverData\<close> value is \<^verbatim>\<open>None\<close> or a dict; the dict may have a \<^verbatim>\<open>points\<close> list, and a
  point may have a \<^verbatim>\<open>pointIndex\<close>. \<open>hovered_point_index\<close> is the condition of each branch of
  the \<^verbatim>\<open>if\<close>/\<^verbatim>\<open>elif\<close> chain together with the index the branch then reads.
\<close>

type_synonym hover_point = "int option"
type_synonym hover_data = "hover_point list option"

fun hovered_point_index :: "hover_data option \<Rightarrow> int option" where
  "hovered_point_index None = None"
| "hovered_point_index (Some None) = None"
| "hovered_point_index (Some (Some [])) = None"
| "hovered_point_index (Some (Some (point # points))) = point"

definition checked_index :: "dataframe \<Rightarrow> int \<Rightarrow> int option" where
  "checked_index df hovered_index = (if in_bounds df hovered_index then Some hovered_index else None)"

definition determine_highlight_index ::
  "dataframe \<Rightarrow> hover_data option \<Rightarrow> hover_data option \<Rightarrow> hover_data option
     \<Rightarrow> hover_data option \<Rightarrow> hover_data option \<Rightarrow> int option" where
  "determine_highlight_index df map_hoverData upper_hoverData lower_hoverData
       cross_upper_hoverData cross_lower_hoverData =
     (case hovered_point_index map_hoverData of
        Some i \<Rightarrow> checked_index df i
      | None \<Rightarrow>
     (case hovered_point_index upper_hoverData of
        Some i \<Rightarrow> checked_index df i
      | None \<Rightarrow>
     (case hovered_point_index lower_hoverData of
        Some i \<Rightarrow> checked_index df i
      | None \<Rightarrow>
     (case hovered_point_index cross_upper_hoverData of
        Some i \<Rightarrow> checked_index df i
      | None \<Rightarrow>
     (case hovered_point_index cross_lower_hoverData of
        Some i \<Rightarrow> checked_index df i
      | None \<Rightarrow> None)))))"

text \<open>
  The figure Dash hands back as \<^verbatim>\<open>State("map-graph", "figure")\<close>: \<^verbatim>\<open>None\<close> or a dict that
  may have \<^verbatim>\<open>data\<close> and \<^verbatim>\<open>layout\<close>.
\<close>

record fig_dict =
  fd_data :: "trace list option"
  fd_layout :: "layout option"

text \<open>
  The list comprehension that drops the old highlight traces. Every Plotly trace object
  has the attribute \<^verbatim>\<open>name\<close>, so \<^verbatim>\<open>hasattr\<close> is true; on a trace whose name is unset
  \<^verbatim>\<open>trace.name\<close> is \<^verbatim>\<open>None\<close> and \<^verbatim>\<open>.startswith\<close> raises.
\<close>

fun strip_highlight :: "trace list \<Rightarrow> py_error + trace list" where
  "strip_highlight [] = Inr []"
| "strip_highlight (t # ts) =
     (case trace_name t of
        None \<Rightarrow> Inl AttributeError
      | Some nm \<Rightarrow>
          err_bind (strip_highlight ts) (\<lambda>kept.
            Inr (if \<not> startswith nm ''Highlighted'' then t # kept else kept)))"

text \<open>
  The branch \<^verbatim>\<open>if current_map_fig and "data" in current_map_fig\<close> of the hover callback:
  rebuild the figure from the prior \<^verbatim>\<open>data\<close> and \<^verbatim>\<open>layout\<close> (a missing \<^verbatim>\<open>layout\<close> key
  raises), drop the old highlight traces, and add the outline of the highlighted row. The
  index is not checked against the rows here; the callback has resolved it already.
\<close>

definition update_map_incremental ::
  "dataframe \<Rightarrow> trace list \<Rightarrow> layout option \<Rightarrow> int option \<Rightarrow> py_error + figure" where
  "update_map_incremental df data lay highlight_index =
     err_bind (case lay of None \<Rightarrow> Inl KeyError
               | Some l \<Rightarrow> Inr \<lparr>fig_data = data, fig_layout = l\<rparr>) (\<lambda>map_fig.
     err_bind (strip_highlight (fig_data map_fig)) (\<lambda>kept.
       (let map_fig = map_fig\<lparr>fig_data := kept\<rparr>
        in case highlight_index of
             None \<Rightarrow> Inr map_fig
           | Some i \<Rightarrow>
               err_bind (iloc df i) (\<lambda>r.
                 Inr (add_traces map_fig (highlight_outline (geometry r)))))))"

text \<open>The five \<^verbatim>\<open>Output\<close>s the hover callback is registered with, in order.\<close>

definition hover_callback_outputs :: "string list" where
  "hover_callback_outputs =
     [''upper-scatter'', ''lower-scatter'', ''cross-upper-scatter'', ''cross-lower-scatter'',
      ''map-graph'']"

definition update_all_visualizations_with_highlight ::
  "dataframe \<Rightarrow> hover_data option \<Rightarrow> hover_data option \<Rightarrow> hover_data option
     \<Rightarrow> hover_data option \<Rightarrow> hover_data option
     \<Rightarrow> string option \<Rightarrow> string option \<Rightarrow> string option \<Rightarrow> fig_dict option
     \<Rightarrow> py_error + figure list" where
  "update_all_visualizations_with_highlight df map_hoverData upper_hoverData lower_hoverData
       cross_upper_hoverData cross_lower_hoverData y_axis_type x_axis_column main_dropdown
       current_map_fig =
     (if \<not> str_truthy y_axis_type \<or> \<not> str_truthy x_axis_column \<or> \<not> str_truthy main_dropdown
      then Inr [Figure, Figure, Figure, Figure]
      else
        err_bind (case scatter_configs (the y_axis_type) of
                    None \<Rightarrow> Inl KeyError | Some config \<Rightarrow> Inr config) (\<lambda>(upper_col, lower_col).
        (let x_col = the x_axis_column;
             highlight_index =
               determine_highlight_index df map_hoverData upper_hoverData lower_hoverData
                 cross_upper_hoverData cross_lower_hoverData
         in
        err_bind (calculate_consistent_ranges df upper_col lower_col x_col)
          (\<lambda>(x_range, y_range, color_range).
        err_bind (create_scatter_plot df upper_col x_col highlight_index
                    (Some x_range) (Some y_range) (Some color_range)
                    (Some (get_axis_title x_col)) (Some (get_axis_title upper_col))) (\<lambda>upper_fig.
        err_bind (create_scatter_plot df lower_col x_col highlight_index
                    (Some x_range) (Some y_range) (Some color_range)
                    (Some (get_axis_title x_col)) (Some (get_axis_title lower_col))) (\<lambda>lower_fig.
        err_bind (create_cross_scatter_plot df ''legislator_rate'' ''against_recall_rate''
                    highlight_index) (\<lambda>cross_upper_fig.
        err_bind (create_cross_scatter_plot df ''legislator_vote'' ''against_recall_vote''
                    highlight_index) (\<lambda>cross_lower_fig.
        err_bind
          (case current_map_fig of
             None \<Rightarrow>
               create_map_plot df main_dropdown highlight_index
                 (Some (get_axis_title (the main_dropdown)))
           | Some d \<Rightarrow>
               (case fd_data d of
                  None \<Rightarrow>
                    create_map_plot df main_dropdown highlight_index
                      (Some (get_axis_title (the main_dropdown)))
                | Some data \<Rightarrow> update_map_incremental df data (fd_layout d) highlight_index))
          (\<lambda>map_fig.
            Inr [upper_fig, lower_fig, cross_upper_fig, cross_lower_fig, map_fig])))))))))"

definition update_map :: "dataframe \<Rightarrow> string option \<Rightarrow> py_error + figure" where
  "update_map df selected_column =
     err_bind (get_axis_title_opt selected_column) (\<lambda>t.
       create_map_plot df selected_column None (Some t))"

definition update_scatter ::
  "dataframe \<Rightarrow> string option \<Rightarrow> string option \<Rightarrow> py_error + figure list" where
  "update_scatter df y_axis_type x_axis_column =
     (if \<not> str_truthy y_axis_type \<or> \<not> str_truthy x_axis_column
      then Inr [Figure, Figure]
      else
        err_bind (case scatter_configs (the y_axis_type) of
                    None \<Rightarrow> Inl KeyError | Some config \<Rightarrow> Inr config) (\<lambda>(upper_col, lower_col).
        (let x_col = the x_axis_column in
        err_bind (calculate_consistent_ranges df upper_col lower_col x_col)
          (\<lambda>(x_range, y_range, color_range).
        err_bind (create_scatter_plot df upper_col x_col None
                    (Some x_range) (Some y_range) (Some color_range)
                    (Some (get_axis_title x_col)) (Some (get_axis_title upper_col))) (\<lambda>upper_fig.
        err_bind (create_scatter_plot df lower_col x_col None
                    (Some x_range) (Some y_range) (Some color_range)
                    (Some (get_axis_title x_col)) (Some (get_axis_title lower_col))) (\<lambda>lower_fig.
          Inr [upper_fig, lower_fig]))))))"

section \<open>Reading a rendered figure\<close>

text \<open>
  A highlight trace is a trace whose name starts with \<^verbatim>\<open>Highlighted\<close>, the marker the
  hover callback itself goes by when it strips the old overlay.
\<close>

definition is_highlight :: "trace \<Rightarrow> bool" where
  "is_highlight t = (case trace_name t of None \<Rightarrow> False | Some nm \<Rightarrow> startswith nm ''Highlighted'')"

definition highlight_traces :: "figure \<Rightarrow> trace list" where
  "highlight_traces fig = filter is_highlight (fig_data fig)"


text \<open>
  The specification's rule for the highlight index, in its own words: the first event, in
  priority order, that is present with a valid point index wins. It is compared with
  \<open>determine_highlight_index\<close> below.
\<close>

definition present_and_valid :: "dataframe \<Rightarrow> hover_data option \<Rightarrow> bool" where
  "present_and_valid df ev =
     (case hovered_point_index ev of None \<Rightarrow> False | Some i \<Rightarrow> in_bounds df i)"

definition spec_resolve_highlight :: "dataframe \<Rightarrow> hover_data option list \<Rightarrow> int option" where
  "spec_resolve_highlight df events =
     (case List.find (present_and_valid df) events of
        None \<Rightarrow> None
      | Some ev \<Rightarrow> hovered_point_index ev)"

text \<open>What the code does: the first event that reports an index decides, valid or not.\<close>

definition first_reported :: "hover_data option list \<Rightarrow> int option" where
  "first_reported events =
     (case List.map_filter hovered_point_index events of [] \<Rightarrow> None | i # rest \<Rightarrow> Some i)"

section \<open>A small dataset\<close>

text \<open>
  Three villages with the measures the dashboard reads; the second one has a boundary of
  two parts. A hover event on point \<open>i\<close> is \<open>hover_at i\<close>.
\<close>

definition measures_of :: "(string \<times> real) list \<Rightarrow> string \<Rightarrow> real" where
  "measures_of kvs col = (case map_of kvs col of None \<Rightarrow> 0 | Some v \<Rightarrow> v)"

definition example_columns :: "string list" where
  "example_columns =
     [''legislator_rate'', ''against_recall_rate'', ''legislator_vote'', ''against_recall_vote'',
      ''legislator_total_voter_density'']"

definition example_row :: "string \<Rightarrow> real list \<Rightarrow> geometry \<Rightarrow> row" where
  "example_row nm vals geom =
     \<lparr>area_name = nm, region = ''Hualien'',
      measures = measures_of (zip example_columns vals), geometry = geom\<rparr>"

definition example_df :: dataframe where
  "example_df =
     \<lparr>columns = example_columns,
      rows =
        [example_row ''A'' [0.4, 0.3, 400, 300, 50]
           (Polygon [(0, 0), (1, 0), (1, 1), (0, 0)]),
         example_row ''B'' [0.6, 0.5, 600, 500, 100]
           (MultiPolygon [[(2, 0), (3, 0), (3, 1), (2, 0)], [(4, 0), (5, 0), (5, 1), (4, 0)]]),
         example_row ''C'' [0.8, 0.7, 800, 700, 25]
           (Polygon [(6, 0), (7, 0), (7, 1), (6, 0)])]\<rparr>"

definition hover_at :: "int \<Rightarrow> hover_data option" where
  "hover_at i = Some (Some [Some i])"

text \<open>The highlight marker of row \<open>i\<close> in a scatter plot of the columns \<open>x\<close> and \<open>y\<close>.\<close>

definition row_marker :: "dataframe \<Rightarrow> int \<Rightarrow> string \<Rightarrow> string \<Rightarrow> trace" where
  "row_marker df i x y =
     highlight_marker (Fin (measures (rows df ! nat i) x)) (Fin (measures (rows df ! nat i) y))"



section \<open>Basic facts\<close>

lemma series_max_Max:
  assumes "vs \<noteq> []"
  shows "series_max vs = Fin (Max (set vs))"
proof (cases vs)
  case Nil
  with assms show ?thesis by simp
next
  case (Cons v rest)
  have "fold max rest v = Max (set (v # rest))"
    by (rule Max.set_eq_fold [symmetric])
  with Cons show ?thesis by simp
qed

lemma py_max_Fin: "py_max (Fin a) (Fin b) = Fin (max a b)"
  by (simp add: py_max_def max_def)

lemma str_contains_sublist: "str_contains sub s \<longleftrightarrow> sublist sub s"
  by (induction s) (simp_all add: sublist_Cons_right)

lemma rate_in_lower_iff:
  "rate_in_lower col \<longleftrightarrow> (\<exists>pre suf. str_lower col = pre @ ''rate'' @ suf)"
  by (simp add: rate_in_lower_def str_contains_sublist sublist_def)

lemma col_max_present:
  "col \<in> set (columns df) \<Longrightarrow> col_max df col = Inr (series_max (column_values df col))"
  by (simp add: col_max_def df_col_def)

lemma col_min_present:
  "col \<in> set (columns df) \<Longrightarrow> col_min df col = Inr (series_min (column_values df col))"
  by (simp add: col_min_def df_col_def)

lemma col_max_nonempty:
  "col \<in> set (columns df) \<Longrightarrow> rows df \<noteq> [] \<Longrightarrow>
     col_max df col = Inr (Fin (Max (set (column_values df col))))"
  by (simp add: col_max_present series_max_Max column_values_def)

lemma iloc_in_bounds: "in_bounds df i \<Longrightarrow> iloc df i = Inr (rows df ! nat i)"
  by (simp add: iloc_def in_bounds_def)

lemma add_scatter_highlight_None: "add_scatter_highlight df x y None fig = Inr fig"
  by (simp add: add_scatter_highlight_def)

lemma add_scatter_highlight_out:
  "\<not> in_bounds df i \<Longrightarrow> add_scatter_highlight df x y (Some i) fig = Inr fig"
  by (simp add: add_scatter_highlight_def)

lemma add_scatter_highlight_in:
  "in_bounds df i \<Longrightarrow> x \<in> set (columns df) \<Longrightarrow> y \<in> set (columns df) \<Longrightarrow>
     add_scatter_highlight df x y (Some i) fig =
       Inr (add_trace fig (highlight_marker (Fin (measures (rows df ! nat i) x))
                                            (Fin (measures (rows df ! nat i) y))))"
  by (simp add: add_scatter_highlight_def iloc_in_bounds row_value_def)

lemma is_highlight_marker: "is_highlight (highlight_marker a b)"
  by (simp add: is_highlight_def highlight_marker_def startswith_def)

lemma not_highlight_diagonal: "\<not> is_highlight (diagonal_trace r)"
  by (simp add: is_highlight_def diagonal_trace_def startswith_def)

lemma is_highlight_outline_trace:
  "is_highlight (outline_trace nm ring) = startswith nm ''Highlighted''"
  by (simp add: is_highlight_def outline_trace_def)

lemma multi_outline_highlight: "\<forall>t \<in> set (multi_outline k parts). is_highlight t"
  by (induction parts arbitrary: k) (simp_all add: is_highlight_outline_trace startswith_def)

lemma highlight_outline_highlight: "\<forall>t \<in> set (highlight_outline g). is_highlight t"
  by (cases g) (simp_all add: multi_outline_highlight is_highlight_outline_trace startswith_def)

lemma filter_highlight_outline [simp]:
  "filter is_highlight (highlight_outline g) = highlight_outline g"
  using highlight_outline_highlight by (simp add: filter_id_conv)

lemma fig_data_add_traces: "fig_data (add_traces fig ts) = fig_data fig @ ts"
  unfolding add_traces_def
  by (induction ts arbitrary: fig) (simp_all add: add_trace_def)










lemmas example_defs =
  example_df_def example_columns_def example_row_def measures_of_def hover_at_def
  df_len_def in_bounds_def column_values_def df_col_def col_max_def col_min_def

lemma rate_legislator [simp]: "rate_in_lower ''legislator_rate''"
  by (simp add: rate_in_lower_def str_lower_def lower_char_def)

lemma rate_against [simp]: "rate_in_lower ''against_recall_rate''"
  by (simp add: rate_in_lower_def str_lower_def lower_char_def)

lemma not_rate_vote [simp]:
  "\<not> rate_in_lower ''legislator_vote''" "\<not> rate_in_lower ''against_recall_vote''"
  by (simp_all add: rate_in_lower_def str_lower_def lower_char_def)

lemma example_density_present:
  "''legislator_total_voter_density'' \<in> set (columns example_df)"
  by (simp add: example_defs)

lemma example_rows_nonempty: "rows example_df \<noteq> []"
  by (simp add: example_defs)

section \<open>Resolving the highlight index\<close>

text \<open>
  Claim C1, as the code has it. The events are consulted in the order map, upper scatter,
  lower scatter, cross upper scatter, cross lower scatter. The first event that reports a
  point index decides alone: the result is that index when \<open>0 \<le> index < row count\<close> and
  no highlight otherwise, also when a later event reports a valid index. Whenever every
  reported index is valid, this is the index of the first event present with a valid
  index, as the specification words it.
\<close>

theorem determine_highlight_index_first_reported:
  "determine_highlight_index df m u l cu cl =
     (case first_reported [m, u, l, cu, cl] of
        None \<Rightarrow> None
      | Some i \<Rightarrow> if in_bounds df i then Some i else None)
   \<and> ((\<forall>ev \<in> set [m, u, l, cu, cl]. hovered_point_index ev = None \<or> present_and_valid df ev)
        \<longrightarrow> determine_highlight_index df m u l cu cl
              = spec_resolve_highlight df [m, u, l, cu, cl])"
  by (auto simp: determine_highlight_index_def first_reported_def checked_index_def
      spec_resolve_highlight_def present_and_valid_def
      split: option.splits)

text \<open>
  With the map reporting point 5 of three rows and the upper scatter reporting point 1,
  the code resolves to no highlight; the rule as the specification states it gives 1.
\<close>

theorem determine_highlight_index_counterexample:
  "determine_highlight_index example_df (hover_at 5) (hover_at 1) None None None = None
   \<and> spec_resolve_highlight example_df [hover_at 5, hover_at 1, None, None, None] = Some 1"
  by (simp add: determine_highlight_index_def spec_resolve_highlight_def present_and_valid_def
      checked_index_def example_defs)

theorem determine_highlight_index_witness:
  "present_and_valid example_df (hover_at 0) \<and> present_and_valid example_df (hover_at 2)
   \<and> determine_highlight_index example_df (hover_at 0) None (hover_at 2) None None = Some 0
   \<and> spec_resolve_highlight example_df [hover_at 0, None, hover_at 2, None, None] = Some 0"
proof -
  have h: "\<forall>ev \<in> set [hover_at 0, None, hover_at 2, None, None].
             hovered_point_index ev = None \<or> present_and_valid example_df ev"
    by (simp add: present_and_valid_def example_defs)
  have s: "spec_resolve_highlight example_df [hover_at 0, None, hover_at 2, None, None] = Some 0"
    by (simp add: spec_resolve_highlight_def present_and_valid_def example_defs)
  have d: "determine_highlight_index example_df (hover_at 0) None (hover_at 2) None None
           = spec_resolve_highlight example_df [hover_at 0, None, hover_at 2, None, None]"
    using determine_highlight_index_first_reported
            [of example_df "hover_at 0" None "hover_at 2" None None] h
    by blast
  have v: "present_and_valid example_df (hover_at 0)" "present_and_valid example_df (hover_at 2)"
    by (simp_all add: present_and_valid_def example_defs)
  show ?thesis
    by (intro conjI; (rule v | simp only: d s))
qed

section \<open>Unset selections\<close>

text \<open>
  Claim C2. With the scatter category unset the hover callback returns a tuple of four
  empty figures, one fewer than the five outputs it is registered with; and
  \<^verbatim>\<open>update_map\<close> with no column raises in \<^verbatim>\<open>get_axis_title\<close> before
  \<^verbatim>\<open>create_map_plot\<close> can return its empty figure.
\<close>

theorem hover_callback_unset_selection:
  "update_all_visualizations_with_highlight example_df (hover_at 1) None None None None
       None (Some ''legislator_total_voter_density'') (Some ''legislator_rate'') None
     = Inr [Figure, Figure, Figure, Figure]
   \<and> length [Figure, Figure, Figure, Figure] \<noteq> length hover_callback_outputs
   \<and> update_map example_df None = Inl AttributeError"
  by (simp add: update_all_visualizations_with_highlight_def str_truthy_def
      hover_callback_outputs_def update_map_def get_axis_title_opt_def)

theorem hover_callback_unset_selection_witness:
  "length (projr (update_all_visualizations_with_highlight example_df (hover_at 1) None None
       None None None (Some ''legislator_total_voter_density'') (Some ''legislator_rate'') None))
     = 4
   \<and> length hover_callback_outputs = 5"
  using hover_callback_unset_selection
  by (simp add: hover_callback_outputs_def)

section \<open>Shared ranges of the paired scatter plots\<close>

text \<open>
  Claim C3, as the code has it. On a dataset with at least one row, the x-range is padded
  by 2% of the observed column maximum on both sides: its lower endpoint is
  \<open>- max \<times> 0.02\<close> (not 0) and its upper endpoint is \<open>max \<times> 1.02\<close>.
\<close>

theorem x_range_padding:
  assumes "x_axis_column \<in> set (columns df)" and "rows df \<noteq> []"
    and "(rate_in_lower upper_col \<and> rate_in_lower lower_col)
         \<or> (upper_col \<in> set (columns df) \<and> lower_col \<in> set (columns df))"
  shows "\<exists>y_range color_range.
           calculate_consistent_ranges df upper_col lower_col x_axis_column =
             Inr ((Fin (- Max (set (column_values df x_axis_column)) * 0.02),
                   Fin (Max (set (column_values df x_axis_column)) * 1.02)),
                  y_range, color_range)"
  using assms
  by (auto simp: calculate_consistent_ranges_def col_max_nonempty Let_def)

text \<open>The densities 50, 100 and 25 give the x-range \<open>[-2, 102]\<close>: the floor is not 0.\<close>

theorem x_range_floor_counterexample:
  "calculate_consistent_ranges example_df ''legislator_rate'' ''against_recall_rate''
         ''legislator_total_voter_density'' =
       Inr ((Fin (- 2), Fin 102), (Fin 0, Fin 1.05), (Fin 0, Fin 1.05))
   \<and> Fin (- 2) \<noteq> Fin 0"
  by (simp add: calculate_consistent_ranges_def example_defs Let_def)

theorem x_range_padding_witness:
  "''legislator_total_voter_density'' \<in> set (columns example_df) \<and> rows example_df \<noteq> []
   \<and> rate_in_lower ''legislator_rate'' \<and> rate_in_lower ''against_recall_rate''
   \<and> (\<exists>y_range color_range.
         calculate_consistent_ranges example_df ''legislator_rate'' ''against_recall_rate''
           ''legislator_total_voter_density'' = Inr ((Fin (- 2), Fin 102), y_range, color_range))"
proof -
  have a: "(rate_in_lower ''legislator_rate'' \<and> rate_in_lower ''against_recall_rate'')
         \<or> (''legislator_rate'' \<in> set (columns example_df)
            \<and> ''against_recall_rate'' \<in> set (columns example_df))"
    by simp
  show ?thesis
    using x_range_padding [OF example_density_present example_rows_nonempty a]
    by (simp add: example_defs)
qed

text \<open>
  Claim C4. When both column names contain \<^verbatim>\<open>rate\<close> (case-insensitively) the shared
  y-range and colour range are \<open>[0, 1.05]\<close> whatever the data; otherwise both are
  \<open>[0, max(upper max, lower max) \<times> 1.05]\<close>.
\<close>

theorem shared_y_color_range:
  assumes "x_axis_column \<in> set (columns df)" and "rows df \<noteq> []"
    and "(rate_in_lower upper_col \<and> rate_in_lower lower_col)
         \<or> (upper_col \<in> set (columns df) \<and> lower_col \<in> set (columns df))"
  shows "\<exists>x_range.
           calculate_consistent_ranges df upper_col lower_col x_axis_column =
             (if rate_in_lower upper_col \<and> rate_in_lower lower_col
              then Inr (x_range, (Fin 0, Fin 1.05), (Fin 0, Fin 1.05))
              else Inr (x_range,
                  (Fin 0, Fin (max (Max (set (column_values df upper_col)))
                                   (Max (set (column_values df lower_col))) * 1.05)),
                  (Fin 0, Fin (max (Max (set (column_values df upper_col)))
                                   (Max (set (column_values df lower_col))) * 1.05))))"
  using assms
  by (auto simp: calculate_consistent_ranges_def col_max_nonempty Let_def py_max_Fin)

theorem shared_y_color_range_witness:
  "(\<exists>x_range. calculate_consistent_ranges example_df ''legislator_rate'' ''against_recall_rate''
       ''legislator_total_voter_density'' = Inr (x_range, (Fin 0, Fin 1.05), (Fin 0, Fin 1.05)))
   \<and> (\<exists>x_range. calculate_consistent_ranges example_df ''legislator_vote'' ''against_recall_vote''
       ''legislator_total_voter_density'' = Inr (x_range, (Fin 0, Fin 840), (Fin 0, Fin 840)))"
proof -
  have a: "(rate_in_lower ''legislator_rate'' \<and> rate_in_lower ''against_recall_rate'')
         \<or> (''legislator_rate'' \<in> set (columns example_df)
            \<and> ''against_recall_rate'' \<in> set (columns example_df))"
    by simp
  have b: "(rate_in_lower ''legislator_vote'' \<and> rate_in_lower ''against_recall_vote'')
         \<or> (''legislator_vote'' \<in> set (columns example_df)
            \<and> ''against_recall_vote'' \<in> set (columns example_df))"
    by (simp add: example_defs)
  show ?thesis
    using shared_y_color_range [OF example_density_present example_rows_nonempty a]
          shared_y_color_range [OF example_density_present example_rows_nonempty b]
    by (simp add: example_defs)
qed

lemma or_default_Some [simp]: "or_default (Some v) c = Inr v"
  by (simp add: or_default_def)

lemma or_default_None [simp]: "or_default None c = c"
  by (simp add: or_default_def)

lemma px_scatter_present:
  "x \<in> set (columns df) \<Longrightarrow> y \<in> set (columns df) \<Longrightarrow>
     px_scatter df x y scale rc =
       Inr \<lparr>fig_data =
              [\<lparr>trace_type = ''scatter'', trace_name = Some [],
                trace_x = map Fin (column_values df x),
                trace_y = map Fin (column_values df y),
                trace_color = map Fin (column_values df y), trace_mode = Some ''markers''\<rparr>],
            fig_layout =
              empty_layout\<lparr>xaxis_title := Some (Text x),
                           yaxis_title := Some (Text y),
                           coloraxis_colorscale := Some scale,
                           coloraxis_range := rc,
                           colorbar_title := Some (Text y)\<rparr>\<rparr>"
  by (simp add: px_scatter_def)

lemma not_highlight_unnamed: "trace_name t = Some [] \<Longrightarrow> \<not> is_highlight t"
  by (simp add: is_highlight_def startswith_def)

lemma create_scatter_plot_highlight:
  assumes "x \<in> set (columns df)" and "y \<in> set (columns df)"
  shows "\<exists>fig. create_scatter_plot df y x h xr yr cr xt yt = Inr fig
           \<and> highlight_traces fig =
               (case h of None \<Rightarrow> []
                | Some i \<Rightarrow> if in_bounds df i then [row_marker df i x y] else [])"
proof -
  let ?E = "(if rate_in_lower y
        then Inr (case cr of None \<Rightarrow> (Fin 0, Fin 1) | Some r \<Rightarrow> r,
                  case yr of None \<Rightarrow> (Fin 0, Fin 1) | Some r \<Rightarrow> r,
                  RdYlGn)
        else err_bind (or_default cr
                         (err_bind (col_max df y) (\<lambda>m. Inr (Fin 0, m)))) (\<lambda>cr.
             err_bind (or_default yr
                         (err_bind (col_max df y) (\<lambda>m. Inr (Fin 0, m)))) (\<lambda>yr.
               Inr (cr, yr, Viridis))))"
  let ?X = "or_default xr (err_bind (col_min df x) (\<lambda>lo.
           err_bind (col_max df x) (\<lambda>hi. Inr (lo, hi))))"
  have "\<exists>c1 y1 sc. ?E = Inr (c1, y1, sc)"
    using assms by (cases cr; cases yr; simp add: col_max_present)
  then obtain c1 y1 sc where pre: "?E = Inr (c1, y1, sc)"
    by blast
  have "\<exists>x1. ?X = Inr x1"
    using assms by (cases xr; simp add: col_max_present col_min_present)
  then obtain x1 where xr1: "?X = Inr x1"
    by blast
  show ?thesis
    using assms
    by (cases h)
       (simp_all add: create_scatter_plot_def pre xr1 px_scatter_present
          add_scatter_highlight_None add_scatter_highlight_in add_scatter_highlight_out
          highlight_traces_def add_trace_def is_highlight_marker row_marker_def
          not_highlight_unnamed)
qed


lemma px_choropleth_present:
  "col \<in> set (columns df) \<Longrightarrow>
     px_choropleth_mapbox df col scale rc =
       Inr \<lparr>fig_data =
                  [\<lparr>trace_type = ''choroplethmapbox'', trace_name = Some [],
                    trace_x = [], trace_y = [],
                    trace_color = map Fin (column_values df col), trace_mode = None\<rparr>],
                fig_layout =
                  empty_layout\<lparr>coloraxis_colorscale := Some scale,
                               coloraxis_range := Some rc,
                               colorbar_title := Some (Text col),
                               mapbox_style := Some ''carto-positron'',
                               mapbox_zoom := Some 8\<rparr>\<rparr>"
  by (simp add: px_choropleth_mapbox_def)

lemma create_map_plot_highlight:
  assumes "col \<in> set (columns df)" and "col \<noteq> []"
  shows "\<exists>fig. create_map_plot df (Some col) h ct = Inr fig
           \<and> highlight_traces fig =
               (case h of None \<Rightarrow> []
                | Some i \<Rightarrow> if in_bounds df i
                            then highlight_outline (geometry (rows df ! nat i)) else [])"
  using assms
  by (cases h; cases "rate_in_lower col")
     (simp_all add: create_map_plot_def col_max_present px_choropleth_present iloc_in_bounds
        highlight_traces_def fig_data_add_traces not_highlight_unnamed)

lemma create_cross_scatter_plot_present:
  assumes "x \<in> set (columns df)" and "y \<in> set (columns df)"
  shows "create_cross_scatter_plot df x y h =
     Inr \<lparr>fig_data =
            [\<lparr>trace_type = ''scatter'', trace_name = Some [],
              trace_x = map Fin (column_values df x),
              trace_y = map Fin (column_values df y),
              trace_color = map Fin (column_values df y), trace_mode = Some ''markers''\<rparr>,
             diagonal_trace
               (Fin 0, fmul (py_max (series_max (column_values df x))
                                    (series_max (column_values df y))) 1.05)]
            @ (case h of None \<Rightarrow> []
               | Some i \<Rightarrow> if in_bounds df i then [row_marker df i x y] else []),
          fig_layout =
            empty_layout
              \<lparr>layout_height := Some 280,
               layout_margin := Some (10, 40, 10, 10),
               xaxis_range := Some (Fin 0, fmul (py_max (series_max (column_values df x))
                                    (series_max (column_values df y))) 1.05),
               xaxis_title := Some (get_axis_title x),
               yaxis_range := Some (Fin 0, fmul (py_max (series_max (column_values df x))
                                    (series_max (column_values df y))) 1.05),
               yaxis_title := Some (get_axis_title y),
               coloraxis_colorscale := Some Viridis,
               coloraxis_range := None,
               colorbar_title := Some (Text [])\<rparr>\<rparr>"
  using assms
  by (cases h)
     (simp_all add: create_cross_scatter_plot_def col_max_present px_scatter_present Let_def
        add_scatter_highlight_None add_scatter_highlight_in add_scatter_highlight_out
        add_trace_def row_marker_def empty_layout_def)

lemma create_cross_scatter_plot_highlight:
  assumes "x \<in> set (columns df)" and "y \<in> set (columns df)"
  shows "\<exists>fig. create_cross_scatter_plot df x y h = Inr fig
           \<and> highlight_traces fig =
               (case h of None \<Rightarrow> []
                | Some i \<Rightarrow> if in_bounds df i then [row_marker df i x y] else [])"
  using assms
  by (cases h)
     (simp_all add: create_cross_scatter_plot_present highlight_traces_def
        not_highlight_unnamed not_highlight_diagonal is_highlight_marker row_marker_def)

section \<open>Highlight overlays\<close>


text \<open>
  Claim C6. A highlight index outside the rows (\<open>i < 0\<close> or \<open>i \<ge> row count\<close>) gives, in the
  scatter plot, the cross scatter plot and the map, exactly the result of the same call
  without a highlight; where the columns exist that result is a chart, not an error.
\<close>

theorem out_of_bounds_is_no_highlight:
  assumes "i < 0 \<or> df_len df \<le> i"
  shows "create_scatter_plot df y x (Some i) xr yr cr xt yt
           = create_scatter_plot df y x None xr yr cr xt yt
       \<and> create_cross_scatter_plot df x y (Some i) = create_cross_scatter_plot df x y None
       \<and> create_map_plot df sel (Some i) ct = create_map_plot df sel None ct
       \<and> (x \<in> set (columns df) \<and> y \<in> set (columns df) \<longrightarrow>
            (\<exists>fig. create_scatter_plot df y x (Some i) xr yr cr xt yt = Inr fig)
            \<and> (\<exists>fig. create_cross_scatter_plot df x y (Some i) = Inr fig))
       \<and> ((\<forall>col. sel = Some col \<longrightarrow> col \<in> set (columns df)) \<longrightarrow>
            (\<exists>fig. create_map_plot df sel (Some i) ct = Inr fig))"
proof -
  from assms have nb: "\<not> in_bounds df i"
    by (auto simp: in_bounds_def)
  have scatter: "create_scatter_plot df y x (Some i) xr yr cr xt yt
           = create_scatter_plot df y x None xr yr cr xt yt"
    using nb
    by (simp add: create_scatter_plot_def add_scatter_highlight_out add_scatter_highlight_None)
  have cross: "create_cross_scatter_plot df x y (Some i) = create_cross_scatter_plot df x y None"
    using nb
    by (simp add: create_cross_scatter_plot_def add_scatter_highlight_out
        add_scatter_highlight_None)
  have map: "create_map_plot df sel (Some i) ct = create_map_plot df sel None ct"
    using nb by (cases sel) (simp_all add: create_map_plot_def)
  have ret: "\<exists>fig. create_scatter_plot df y x (Some i) xr yr cr xt yt = Inr fig"
    "\<exists>fig. create_cross_scatter_plot df x y (Some i) = Inr fig"
    if "x \<in> set (columns df)" and "y \<in> set (columns df)"
    using create_scatter_plot_highlight [OF that] create_cross_scatter_plot_highlight [OF that]
    by blast+
  have retmap: "\<exists>fig. create_map_plot df sel (Some i) ct = Inr fig"
    if "\<forall>col. sel = Some col \<longrightarrow> col \<in> set (columns df)"
  proof (cases sel)
    case None
    then show ?thesis by (simp add: create_map_plot_def)
  next
    case (Some col)
    show ?thesis
    proof (cases "col = []")
      case True
      with Some show ?thesis by (simp add: create_map_plot_def)
    next
      case False
      from that Some have "col \<in> set (columns df)" by simp
      from create_map_plot_highlight [OF this False] Some show ?thesis by blast
    qed
  qed
  from scatter cross map ret retmap show ?thesis
    by blast
qed

section \<open>Cross scatter plot\<close>

text \<open>
  Claim C8. On a dataset with rows, the diagonal reference line of the cross scatter plot
  runs from \<open>(r0, r0)\<close> to \<open>(r1, r1)\<close> where \<open>[r0, r1] = [0, max(x max, y max) \<times> 1.05]\<close>,
  and both axes are set to that same range.
\<close>

theorem cross_scatter_diagonal_spans_axis_range:
  assumes "x \<in> set (columns df)" and "y \<in> set (columns df)" and "rows df \<noteq> []"
  shows "\<exists>fig. create_cross_scatter_plot df x y h = Inr fig
           \<and> xaxis_range (fig_layout fig)
               = Some (Fin 0, Fin (max (Max (set (column_values df x)))
                                       (Max (set (column_values df y))) * 1.05))
           \<and> yaxis_range (fig_layout fig) = xaxis_range (fig_layout fig)
           \<and> fig_data fig ! 1
               = diagonal_trace (Fin 0, Fin (max (Max (set (column_values df x)))
                                                 (Max (set (column_values df y))) * 1.05))
           \<and> trace_x (fig_data fig ! 1)
               = [Fin 0, Fin (max (Max (set (column_values df x)))
                                  (Max (set (column_values df y))) * 1.05)]
           \<and> trace_y (fig_data fig ! 1) = trace_x (fig_data fig ! 1)"
proof -
  from assms(3) have ne: "column_values df x \<noteq> []" "column_values df y \<noteq> []"
    by (simp_all add: column_values_def)
  show ?thesis
    using assms(1,2)
    by (simp add: create_cross_scatter_plot_present series_max_Max [OF ne(1)]
        series_max_Max [OF ne(2)] py_max_Fin diagonal_trace_def)
qed

text \<open>
  Claim C10. Whatever the column names, also when both contain \<^verbatim>\<open>rate\<close>, the cross
  scatter plot uses the Viridis colour scale, fixes no colour range, and sets both axes to
  \<open>[0, max(x max, y max) \<times> 1.05]\<close>.
\<close>

theorem cross_scatter_ignores_rate_convention:
  assumes "x \<in> set (columns df)" and "y \<in> set (columns df)" and "rows df \<noteq> []"
  shows "\<exists>fig. create_cross_scatter_plot df x y h = Inr fig
           \<and> coloraxis_colorscale (fig_layout fig) = Some Viridis
           \<and> coloraxis_range (fig_layout fig) = None
           \<and> xaxis_range (fig_layout fig)
               = Some (Fin 0, Fin (max (Max (set (column_values df x)))
                                       (Max (set (column_values df y))) * 1.05))
           \<and> yaxis_range (fig_layout fig)
               = Some (Fin 0, Fin (max (Max (set (column_values df x)))
                                       (Max (set (column_values df y))) * 1.05))"
proof -
  from assms(3) have ne: "column_values df x \<noteq> []" "column_values df y \<noteq> []"
    by (simp_all add: column_values_def)
  show ?thesis
    using assms(1,2)
    by (simp add: create_cross_scatter_plot_present series_max_Max [OF ne(1)]
        series_max_Max [OF ne(2)] py_max_Fin)
qed







section \<open>Incremental map update\<close>




lemma example_columns_present:
  "''legislator_rate'' \<in> set (columns example_df)"
  "''against_recall_rate'' \<in> set (columns example_df)"
  "''legislator_vote'' \<in> set (columns example_df)"
  "''against_recall_vote'' \<in> set (columns example_df)"
  by (simp_all add: example_defs)





theorem out_of_bounds_is_no_highlight_witness:
  "df_len example_df \<le> 7
   \<and> create_map_plot example_df (Some ''legislator_rate'') (Some 7) None
       = create_map_plot example_df (Some ''legislator_rate'') None None
   \<and> create_cross_scatter_plot example_df ''legislator_vote'' ''against_recall_vote'' (Some (- 1))
       = create_cross_scatter_plot example_df ''legislator_vote'' ''against_recall_vote'' None"
proof -
  have a: "(7::int) < 0 \<or> df_len example_df \<le> 7"
    by (simp add: example_defs)
  have b: "(- 1::int) < 0 \<or> df_len example_df \<le> - 1"
    by simp
  from a have c: "df_len example_df \<le> 7"
    by simp
  show ?thesis
    using out_of_bounds_is_no_highlight [OF a] out_of_bounds_is_no_highlight [OF b] c
    by blast
qed

theorem cross_scatter_diagonal_witness:
  "\<exists>fig. create_cross_scatter_plot example_df ''legislator_vote'' ''against_recall_vote'' None
            = Inr fig
     \<and> xaxis_range (fig_layout fig) = Some (Fin 0, Fin 840)
     \<and> yaxis_range (fig_layout fig) = Some (Fin 0, Fin 840)
     \<and> trace_x (fig_data fig ! 1) = [Fin 0, Fin 840]
     \<and> trace_y (fig_data fig ! 1) = [Fin 0, Fin 840]"
proof -
  have m: "max (Max (set (column_values example_df ''legislator_vote'')))
               (Max (set (column_values example_df ''against_recall_vote''))) * 1.05 = (840::real)"
    by (simp add: example_defs)
  from cross_scatter_diagonal_spans_axis_range
         [OF example_columns_present(3) example_columns_present(4) example_rows_nonempty, of None]
  show ?thesis
    unfolding m by metis
qed

theorem cross_scatter_rate_witness:
  "rate_in_lower ''legislator_rate'' \<and> rate_in_lower ''against_recall_rate''
   \<and> (\<exists>fig. create_cross_scatter_plot example_df ''legislator_rate'' ''against_recall_rate'' None
              = Inr fig
         \<and> coloraxis_colorscale (fig_layout fig) = Some Viridis
         \<and> coloraxis_range (fig_layout fig) = None
         \<and> xaxis_range (fig_layout fig) = Some (Fin 0, Fin 0.84)
         \<and> yaxis_range (fig_layout fig) = Some (Fin 0, Fin 0.84))"
proof -
  have m: "max (Max (set (column_values example_df ''legislator_rate'')))
               (Max (set (column_values example_df ''against_recall_rate''))) * 1.05
           = (0.84::real)"
    by (simp add: example_defs)
  from cross_scatter_ignores_rate_convention
         [OF example_columns_present(1) example_columns_present(2) example_rows_nonempty, of None]
  show ?thesis
    unfolding m by simp
qed


end
